theory Spec2Isabelle
  imports Complex_Main
begin

section \<open>The swappiness daemon of \<^verbatim>\<open>swap_manager.py\<close>\<close>

text \<open>
  The daemon samples system metrics on a fixed interval, keeps them in a bounded window,
  derives a candidate value for the kernel tunable \<^verbatim>\<open>/proc/sys/vm/swappiness\<close> and
  writes it when it differs enough from the current value.

  Python floats are modelled as exact rationals (\<^typ>\<open>rat\<close>): the arithmetic of the
  calculator is the arithmetic the source writes down, without binary rounding.
  The values read from the JSON configuration are taken to have the JSON type the code
  expects (numbers for the weights, integers for the process id and niceness); a key may
  be absent, and the file as a whole may fail to open or parse.
\<close>

subsection \<open>Numbers\<close>

text \<open>Python's \<^verbatim>\<open>int(x)\<close> on a float truncates toward zero.\<close>

definition py_int :: "rat \<Rightarrow> int" where
  "py_int x = (if 0 \<le> x then \<lfloor>x\<rfloor> else \<lceil>x\<rceil>)"

text \<open>\<^verbatim>\<open>np.mean\<close> of a non-empty list: the sum divided by the length.\<close>

definition mean :: "rat list \<Rightarrow> rat" where
  "mean xs = sum_list xs / of_nat (length xs)"

subsection \<open>Weights and metrics\<close>

text \<open>
  The weights dictionary always has the four keys \<^verbatim>\<open>disk_latency\<close>, \<^verbatim>\<open>cpu_usage\<close>,
  \<^verbatim>\<open>ram_usage\<close>, \<^verbatim>\<open>network_bandwidth\<close>, in this insertion order.
\<close>

record weights =
  w_disk_latency :: rat
  w_cpu_usage :: rat
  w_ram_usage :: rat
  w_network_bandwidth :: rat

definition DEFAULT_WEIGHTS :: weights where
  "DEFAULT_WEIGHTS =
     \<lparr>w_disk_latency = 0.25, w_cpu_usage = 0.25, w_ram_usage = 0.25, w_network_bandwidth = 0.25\<rparr>"

definition DEFAULT_NICENESS :: int where
  "DEFAULT_NICENESS = 0"

text \<open>One snapshot, as \<^verbatim>\<open>collect_metrics\<close> returns it.\<close>

record snapshot =
  timestamp :: string
  cpu_usage :: rat
  ram_usage :: rat
  swap_usage :: rat
  swap_total_gb :: rat
  swap_used_gb :: rat
  disk_latency :: rat
  disk_read_count :: int
  disk_write_count :: int
  network_bandwidth :: rat

text \<open>
  The moving averages of \<^verbatim>\<open>adjust_swappiness\<close>: one mean for every key of a snapshot
  other than the timestamp.
\<close>

record averages =
  avg_cpu_usage :: rat
  avg_ram_usage :: rat
  avg_swap_usage :: rat
  avg_swap_total_gb :: rat
  avg_swap_used_gb :: rat
  avg_disk_latency :: rat
  avg_disk_read_count :: rat
  avg_disk_write_count :: rat
  avg_network_bandwidth :: rat

definition moving_averages :: "snapshot list \<Rightarrow> averages" where
  "moving_averages metrics_list =
     \<lparr>avg_cpu_usage = mean (map cpu_usage metrics_list),
      avg_ram_usage = mean (map ram_usage metrics_list),
      avg_swap_usage = mean (map swap_usage metrics_list),
      avg_swap_total_gb = mean (map swap_total_gb metrics_list),
      avg_swap_used_gb = mean (map swap_used_gb metrics_list),
      avg_disk_latency = mean (map disk_latency metrics_list),
      avg_disk_read_count = mean (map (\<lambda>e. of_int (disk_read_count e)) metrics_list),
      avg_disk_write_count = mean (map (\<lambda>e. of_int (disk_write_count e)) metrics_list),
      avg_network_bandwidth = mean (map network_bandwidth metrics_list)\<rparr>"

subsection \<open>The calculator: \<^verbatim>\<open>calculate_swappiness\<close>\<close>

datatype dimension = Disk_latency | Cpu_usage | Ram_usage | Network_bandwidth

text \<open>The keys of the weights dictionary, in iteration order.\<close>

definition weight_keys :: "dimension list" where
  "weight_keys = [Disk_latency, Cpu_usage, Ram_usage, Network_bandwidth]"

fun weight_of :: "weights \<Rightarrow> dimension \<Rightarrow> rat" where
  "weight_of w Disk_latency = w_disk_latency w"
| "weight_of w Cpu_usage = w_cpu_usage w"
| "weight_of w Ram_usage = w_ram_usage w"
| "weight_of w Network_bandwidth = w_network_bandwidth w"

fun normalized_metrics :: "averages \<Rightarrow> dimension \<Rightarrow> rat" where
  "normalized_metrics m Disk_latency = min 1 (avg_disk_latency m / 100)"
| "normalized_metrics m Cpu_usage = avg_cpu_usage m / 100"
| "normalized_metrics m Ram_usage = avg_ram_usage m / 100"
| "normalized_metrics m Network_bandwidth = min 1 (avg_network_bandwidth m / 1000)"

definition weighted_score :: "averages \<Rightarrow> weights \<Rightarrow> rat" where
  "weighted_score m w = sum_list (map (\<lambda>key. weight_of w key * normalized_metrics m key) weight_keys)"

definition cpu_factor :: "averages \<Rightarrow> rat" where
  "cpu_factor m = 1 - avg_cpu_usage m / 100"

definition base_swappiness :: "averages \<Rightarrow> weights \<Rightarrow> rat" where
  "base_swappiness m w = 100 + (weighted_score m w - 0.5) * 200"

definition adjusted_swappiness :: "averages \<Rightarrow> weights \<Rightarrow> rat" where
  "adjusted_swappiness m w = base_swappiness m w * cpu_factor m"

definition calculate_swappiness :: "averages \<Rightarrow> weights \<Rightarrow> int" where
  "calculate_swappiness m w = max 1 (min 200 (py_int (adjusted_swappiness m w)))"


text \<open>\<^verbatim>\<open>validate_weights\<close>: the check that \<^verbatim>\<open>main\<close> applies to the weights loaded at startup.\<close>

datatype error = ArgumentTypeError | ZeroDivisionError | ValueError | OSError

definition weights_total :: "weights \<Rightarrow> rat" where
  "weights_total w = w_disk_latency w + w_cpu_usage w + w_ram_usage w + w_network_bandwidth w"

definition validate_weights :: "weights \<Rightarrow> error + weights" where
  "validate_weights w = (if \<bar>weights_total w - 1\<bar> > 0.001 then Inl ArgumentTypeError else Inr w)"

subsection \<open>The host as the daemon sees it\<close>

text \<open>What the program prints on standard output, one constructor for each message.\<close>

datatype message =
    Config_found_pid int int
  | Updated_niceness int int
  | Failed_to_update_niceness
  | Pid_no_longer_running int
  | No_pid_specified
  | Error_loading_config
  | Error_reading_swappiness
  | Swappiness_set int
  | Error_setting_swappiness
  | Error_collecting_metrics
  | Error_writing_log
  | Weights_changed weights weights
  | Pid_stopping_tracking int
  | Error_in_daemon_loop
  | Swapfile_already_exists
  | Creating_swapfile int
  | Fallocate_failed
  | Failed_to_create_swapfile
  | Swapfile_enabled int
  | Error_setting_up_swap

text \<open>
  The parsed configuration file \<^verbatim>\<open>swp_mgr_cfg.json\<close>: every key may be absent
  (\<^verbatim>\<open>config.get(key, default)\<close>).
\<close>

record config =
  DISK_LATENCY :: "rat option"
  CPU_USAGE :: "rat option"
  RAM_USAGE :: "rat option"
  NETWORK_BANDWIDTH :: "rat option"
  PID :: "int option"
  NICENESS :: "int option"

record process_settings =
  pid :: "int option"
  niceness :: int

text \<open>One record of the log file, with the arguments \<^verbatim>\<open>write_to_log\<close> formats into it.\<close>

record log_entry =
  le_interval :: int
  le_metrics :: snapshot
  le_old_swappiness :: "int option"
  le_new_swappiness :: "int option"
  le_weights_changed :: "(weights \<times> weights) option"

text \<open>
  The part of the host the loop reads and writes.
  \<^item> \<open>config_file\<close>: the parsed configuration, \<open>None\<close> when opening or parsing fails;
  \<^item> \<open>live_pids\<close>: the process ids \<^verbatim>\<open>psutil.pid_exists\<close> reports;
  \<^item> \<open>setpriority_denied\<close>: the process ids for which \<^verbatim>\<open>os.setpriority\<close> raises
    although the process exists; \<open>setpriority_calls\<close>: every call made, in order;
  \<^item> \<open>swappiness_file\<close>: the integer \<^verbatim>\<open>get_swappiness\<close> reads, \<open>None\<close> when the read
    or the conversion fails; \<open>swappiness_writable\<close>: whether a write succeeds;
    \<open>set_swappiness_calls\<close>: every value \<^verbatim>\<open>set_swappiness\<close> was called with;
  \<^item> \<open>sampled\<close>: the snapshot \<^verbatim>\<open>collect_metrics\<close> builds from the counters, \<open>None\<close>
    when a counter read fails;
  \<^item> \<open>clock\<close>: the reading of \<^verbatim>\<open>time.time()\<close>;
  \<^item> \<open>log_file\<close>: the records appended to the log; \<open>log_writable\<close>: whether an append
    succeeds (the log's directory \<^verbatim>\<open>/tmp\<close> is taken to exist);
  \<^item> \<open>stdout\<close>: the messages printed.
\<close>

record os_state =
  config_file :: "config option"
  live_pids :: "int set"
  setpriority_denied :: "int set"
  setpriority_calls :: "(int \<times> int) list"
  swappiness_file :: "int option"
  swappiness_writable :: bool
  set_swappiness_calls :: "int list"
  sampled :: "snapshot option"
  clock :: rat
  log_writable :: bool
  log_file :: "log_entry list"
  stdout :: "message list"

definition print :: "message \<Rightarrow> os_state \<Rightarrow> os_state" where
  "print msg os = os\<lparr>stdout := stdout os @ [msg]\<rparr>"

definition pid_exists :: "os_state \<Rightarrow> int \<Rightarrow> bool" where
  "pid_exists os p = (p \<in> live_pids os)"

text \<open>\<^verbatim>\<open>os.setpriority\<close>: the flag says whether the call returned without \<^verbatim>\<open>OSError\<close>.\<close>

definition setpriority :: "int \<Rightarrow> int \<Rightarrow> os_state \<Rightarrow> bool \<times> os_state" where
  "setpriority p n os =
     (p \<in> live_pids os \<and> p \<notin> setpriority_denied os,
      os\<lparr>setpriority_calls := setpriority_calls os @ [(p, n)]\<rparr>)"

text \<open>\<^verbatim>\<open>dict.get(key, default)\<close>.\<close>

definition get_default :: "'a option \<Rightarrow> 'a \<Rightarrow> 'a" where
  "get_default v d = (case v of None \<Rightarrow> d | Some x \<Rightarrow> x)"

subsection \<open>\<^verbatim>\<open>load_config\<close>\<close>

definition load_config :: "os_state \<Rightarrow> (weights \<times> process_settings) \<times> os_state" where
  "load_config os =
     (case config_file os of
        None \<Rightarrow>
          ((DEFAULT_WEIGHTS, \<lparr>pid = None, niceness = DEFAULT_NICENESS\<rparr>),
           print Error_loading_config os)
      | Some config \<Rightarrow>
          (let weights =
                 \<lparr>w_disk_latency = get_default (DISK_LATENCY config) (w_disk_latency DEFAULT_WEIGHTS),
                  w_cpu_usage = get_default (CPU_USAGE config) (w_cpu_usage DEFAULT_WEIGHTS),
                  w_ram_usage = get_default (RAM_USAGE config) (w_ram_usage DEFAULT_WEIGHTS),
                  w_network_bandwidth =
                    get_default (NETWORK_BANDWIDTH config) (w_network_bandwidth DEFAULT_WEIGHTS)\<rparr>;
               process_settings =
                 \<lparr>pid = PID config, niceness = get_default (NICENESS config) DEFAULT_NICENESS\<rparr>
           in (case pid process_settings of
                 None \<Rightarrow> ((weights, process_settings), print No_pid_specified os)
               | Some p \<Rightarrow>
                   if p = 0 then ((weights, process_settings), print No_pid_specified os)
                   else if pid_exists os p then
                     (let os1 = print (Config_found_pid p (niceness process_settings)) os;
                          (ok, os2) = setpriority p (niceness process_settings) os1
                      in ((weights, process_settings),
                          print (if ok then Updated_niceness (niceness process_settings) p
                                 else Failed_to_update_niceness) os2))
                   else
                     ((weights, process_settings\<lparr>pid := None, niceness := DEFAULT_NICENESS\<rparr>),
                      print (Pid_no_longer_running p) os))))"

subsection \<open>Reading, writing and logging the tunable\<close>

definition get_swappiness :: "os_state \<Rightarrow> int option \<times> os_state" where
  "get_swappiness os =
     (case swappiness_file os of
        None \<Rightarrow> (None, print Error_reading_swappiness os)
      | Some v \<Rightarrow> (Some v, os))"

definition set_swappiness :: "int \<Rightarrow> os_state \<Rightarrow> os_state" where
  "set_swappiness v os =
     (let os1 = os\<lparr>set_swappiness_calls := set_swappiness_calls os @ [v]\<rparr>
      in if swappiness_writable os1 then print (Swappiness_set v) (os1\<lparr>swappiness_file := Some v\<rparr>)
         else print Error_setting_swappiness os1)"

definition write_to_log ::
  "snapshot \<Rightarrow> int option \<Rightarrow> int option \<Rightarrow> int \<Rightarrow> (weights \<times> weights) option \<Rightarrow> os_state \<Rightarrow> os_state" where
  "write_to_log metrics old_swappiness new_swappiness interval weights_changed os =
     (let log_entry =
            \<lparr>le_interval = interval, le_metrics = metrics, le_old_swappiness = old_swappiness,
             le_new_swappiness = new_swappiness, le_weights_changed = weights_changed\<rparr>
      in if log_writable os then os\<lparr>log_file := log_file os @ [log_entry]\<rparr>
         else print Error_writing_log os)"

subsection \<open>\<^verbatim>\<open>adjust_swappiness\<close>\<close>

definition adjust_swappiness ::
  "snapshot list \<Rightarrow> weights \<Rightarrow> (weights \<times> weights) option \<Rightarrow> os_state \<Rightarrow> os_state" where
  "adjust_swappiness metrics_list weights weights_changed os =
     (if length metrics_list < 5 then os
      else
        (let averages = moving_averages metrics_list;
             (old, os1) = get_swappiness os
         in (case old of
               None \<Rightarrow> os1
             | Some old_swappiness \<Rightarrow>
                 (let new_swappiness = calculate_swappiness averages weights
                  in if \<bar>new_swappiness - old_swappiness\<bar> \<ge> 5 then
                       write_to_log (last metrics_list) (Some old_swappiness) (Some new_swappiness)
                         (int (length metrics_list)) weights_changed
                         (set_swappiness new_swappiness os1)
                     else os1))))"

subsection \<open>The loop of \<^verbatim>\<open>run_daemon\<close>\<close>

record daemon_state =
  metrics_list :: "snapshot list"
  start_time :: rat
  previous_weights :: weights
  previous_settings :: "process_settings option"

text \<open>The local variables of \<^verbatim>\<open>run_daemon\<close> before the first iteration.\<close>

definition initial_state :: "weights \<Rightarrow> os_state \<Rightarrow> daemon_state" where
  "initial_state weights os =
     \<lparr>metrics_list = [], start_time = clock os, previous_weights = weights,
      previous_settings = None\<rparr>"

text \<open>The comparison of the loaded weights with the previous ones.\<close>

definition detect_weights_change ::
  "weights \<Rightarrow> daemon_state \<Rightarrow> os_state \<Rightarrow> (weights \<times> weights) option \<times> daemon_state \<times> os_state" where
  "detect_weights_change current_weights st os =
     (if current_weights \<noteq> previous_weights st then
        (Some (previous_weights st, current_weights),
         st\<lparr>previous_weights := current_weights\<rparr>,
         print (Weights_changed (previous_weights st) current_weights) os)
      else (None, st, os))"

text \<open>
  The comparison of the loaded process settings with the previous ones, and the
  priority-application step. The niceness loaded by \<open>load_config\<close> is never \<^verbatim>\<open>None\<close>.
\<close>

definition apply_settings :: "process_settings \<Rightarrow> os_state \<Rightarrow> process_settings \<times> os_state" where
  "apply_settings current_settings os =
     (case pid current_settings of
        None \<Rightarrow> (current_settings, os)
      | Some p \<Rightarrow>
          if p = 0 then (current_settings, os)
          else if pid_exists os p then
            (let (ok, os1) = setpriority p (niceness current_settings) os
             in (current_settings,
                 print (if ok then Updated_niceness (niceness current_settings) p
                        else Failed_to_update_niceness) os1))
          else
            (current_settings\<lparr>pid := None, niceness := DEFAULT_NICENESS\<rparr>,
             print (Pid_stopping_tracking p) os))"

definition reconcile_settings ::
  "process_settings \<Rightarrow> daemon_state \<Rightarrow> os_state \<Rightarrow> process_settings \<times> daemon_state \<times> os_state" where
  "reconcile_settings current_settings st os =
     (if Some current_settings \<noteq> previous_settings st then
        (let (current_settings', os1) = apply_settings current_settings os
         in (current_settings', st\<lparr>previous_settings := Some current_settings'\<rparr>, os1))
      else (current_settings, st, os))"

definition collect_metrics :: "os_state \<Rightarrow> snapshot option \<times> os_state" where
  "collect_metrics os =
     (case sampled os of
        None \<Rightarrow> (None, print Error_collecting_metrics os)
      | Some metrics \<Rightarrow> (Some metrics, os))"

text \<open>\<^verbatim>\<open>metrics_list.append(metrics)\<close>, then one \<^verbatim>\<open>pop(0)\<close> when the length exceeds the capacity.\<close>

definition window_append :: "int \<Rightarrow> 'a list \<Rightarrow> 'a \<Rightarrow> 'a list" where
  "window_append max_entries window metrics =
     (let appended = window @ [metrics]
      in if int (length appended) > max_entries then tl appended else appended)"

text \<open>
  How an iteration ends. \<^verbatim>\<open>time.sleep\<close> raises \<^verbatim>\<open>ValueError\<close> on a negative interval:
  inside the \<^verbatim>\<open>try\<close> this enters the handler, inside the handler it ends the thread.
\<close>

datatype tick_outcome = Next daemon_state os_state | Thread_died error daemon_state os_state

definition except_handler :: "int \<Rightarrow> daemon_state \<Rightarrow> os_state \<Rightarrow> tick_outcome" where
  "except_handler snapshot_interval st os =
     (let os1 = print Error_in_daemon_loop os
      in if snapshot_interval < 0 then Thread_died ValueError st os1 else Next st os1)"

definition sleep :: "int \<Rightarrow> daemon_state \<Rightarrow> os_state \<Rightarrow> tick_outcome" where
  "sleep snapshot_interval st os =
     (if snapshot_interval < 0 then except_handler snapshot_interval st os else Next st os)"

text \<open>
  One iteration of the \<^verbatim>\<open>while True\<close> loop, in its two halves. The first reloads the
  configuration and compares it with the previous iteration's; the weights it returns
  are the ones the second half calculates with.
\<close>

definition reconcile ::
  "daemon_state \<Rightarrow> os_state \<Rightarrow> (weights \<times> (weights \<times> weights) option) \<times> daemon_state \<times> os_state" where
  "reconcile st os =
     (let ((current_weights, loaded_settings), os1) = load_config os;
          (weights_changed, st1, os2) = detect_weights_change current_weights st os1;
          (current_settings, st2, os3) = reconcile_settings loaded_settings st1 os2
      in ((current_weights, weights_changed), st2, os3))"

text \<open>
  The second half samples, updates the window, runs the calculator and writes the loop's
  own log record. The division by \<^verbatim>\<open>snapshot_interval\<close> raises \<^verbatim>\<open>ZeroDivisionError\<close>
  when the interval is zero, after the calculator has run and before that record is
  written.
\<close>

definition sample_and_adjust ::
  "int \<Rightarrow> int \<Rightarrow> weights \<Rightarrow> (weights \<times> weights) option \<Rightarrow> daemon_state \<Rightarrow> os_state \<Rightarrow> tick_outcome" where
  "sample_and_adjust max_entries snapshot_interval current_weights weights_changed st os =
     (let (metrics, os1) = collect_metrics os
      in (case metrics of
            None \<Rightarrow> sleep snapshot_interval st os1
          | Some m \<Rightarrow>
              (let st1 = st\<lparr>metrics_list := window_append max_entries (metrics_list st) m\<rparr>;
                   os2 = adjust_swappiness (metrics_list st1) current_weights weights_changed os1
               in if snapshot_interval = 0 then except_handler snapshot_interval st1 os2
                  else
                    (let elapsed_intervals =
                           py_int ((clock os2 - start_time st1) / of_int snapshot_interval);
                         (old, os3) = get_swappiness os2;
                         (new, os4) = get_swappiness os3;
                         os5 = write_to_log m old new elapsed_intervals weights_changed os4
                     in sleep snapshot_interval st1 os5))))"

definition tick :: "int \<Rightarrow> int \<Rightarrow> daemon_state \<Rightarrow> os_state \<Rightarrow> tick_outcome" where
  "tick max_entries snapshot_interval st os =
     (let ((current_weights, weights_changed), st1, os1) = reconcile st os
      in sample_and_adjust max_entries snapshot_interval current_weights weights_changed st1 os1)"

fun outcome_state :: "tick_outcome \<Rightarrow> daemon_state" where
  "outcome_state (Next st os) = st"
| "outcome_state (Thread_died e st os) = st"

fun outcome_os :: "tick_outcome \<Rightarrow> os_state" where
  "outcome_os (Next st os) = os"
| "outcome_os (Thread_died e st os) = os"

fun continues :: "tick_outcome \<Rightarrow> bool" where
  "continues (Next st os) = True"
| "continues (Thread_died e st os) = False"

text \<open>
  Several iterations. Between two iterations the host may change on its own: the list
  gives, for each iteration, the change that happened before it.
\<close>

fun run_daemon ::
  "int \<Rightarrow> int \<Rightarrow> (os_state \<Rightarrow> os_state) list \<Rightarrow> daemon_state \<Rightarrow> os_state \<Rightarrow> tick_outcome" where
  "run_daemon max_entries snapshot_interval [] st os = Next st os"
| "run_daemon max_entries snapshot_interval (change # changes) st os =
     (case tick max_entries snapshot_interval st (change os) of
        Next st' os' \<Rightarrow> run_daemon max_entries snapshot_interval changes st' os'
      | Thread_died e st' os' \<Rightarrow> Thread_died e st' os')"

subsection \<open>\<^verbatim>\<open>create_swapfile\<close>\<close>

text \<open>
  A command run with \<^verbatim>\<open>check=True\<close> exits with status zero, exits with another status
  (\<^verbatim>\<open>CalledProcessError\<close>), or cannot be started (\<^verbatim>\<open>OSError\<close>).
\<close>

datatype cmd_outcome = Exit_ok | Exit_nonzero | Cannot_run

text \<open>
  The swap file and the commands that build it. \<open>failure_leaves_file\<close> says whether an
  allocation command that exits with an error leaves a partial file behind. Removing the
  file is taken to succeed.
\<close>

record host_state =
  swapfile_exists :: bool
  swap_active :: bool
  fallocate_outcome :: cmd_outcome
  dd_outcome :: cmd_outcome
  chmod_ok :: bool
  mkswap_outcome :: cmd_outcome
  swapon_outcome :: cmd_outcome
  failure_leaves_file :: bool
  printed :: "message list"

definition host_print :: "message \<Rightarrow> host_state \<Rightarrow> host_state" where
  "host_print msg h = h\<lparr>printed := printed h @ [msg]\<rparr>"

definition run_allocation :: "cmd_outcome \<Rightarrow> host_state \<Rightarrow> host_state" where
  "run_allocation outcome h =
     (case outcome of
        Exit_ok \<Rightarrow> h\<lparr>swapfile_exists := True\<rparr>
      | Exit_nonzero \<Rightarrow> h\<lparr>swapfile_exists := (swapfile_exists h \<or> failure_leaves_file h)\<rparr>
      | Cannot_run \<Rightarrow> h)"

text \<open>\<^verbatim>\<open>if os.path.exists(SWAPFILE_PATH): os.remove(SWAPFILE_PATH)\<close>.\<close>

definition remove_swapfile :: "host_state \<Rightarrow> host_state" where
  "remove_swapfile h = h\<lparr>swapfile_exists := False\<rparr>"

text \<open>The second \<^verbatim>\<open>try\<close> block: permissions, \<^verbatim>\<open>mkswap\<close>, \<^verbatim>\<open>swapon\<close>.\<close>

definition enable_swapfile :: "int \<Rightarrow> host_state \<Rightarrow> (error + bool) \<times> host_state" where
  "enable_swapfile size_mb h =
     (if swapfile_exists h \<and> chmod_ok h \<and> mkswap_outcome h = Exit_ok \<and> swapon_outcome h = Exit_ok
      then (Inr True, host_print (Swapfile_enabled size_mb) (h\<lparr>swap_active := True\<rparr>))
      else (Inr False, remove_swapfile (host_print Error_setting_up_swap h)))"

definition create_swapfile :: "int \<Rightarrow> host_state \<Rightarrow> (error + bool) \<times> host_state" where
  "create_swapfile size_mb h =
     (if swapfile_exists h then (Inr True, host_print Swapfile_already_exists h)
      else
        (let h1 = host_print (Creating_swapfile size_mb) h
         in (case fallocate_outcome h1 of
               Exit_ok \<Rightarrow> enable_swapfile size_mb (run_allocation Exit_ok h1)
             | Cannot_run \<Rightarrow> (Inl OSError, h1)
             | Exit_nonzero \<Rightarrow>
                 (let h2 = host_print Fallocate_failed (run_allocation Exit_nonzero h1)
                  in (case dd_outcome h2 of
                        Exit_ok \<Rightarrow> enable_swapfile size_mb (run_allocation Exit_ok h2)
                      | Cannot_run \<Rightarrow> (Inl OSError, h2)
                      | Exit_nonzero \<Rightarrow>
                          (Inr False,
                           remove_swapfile
                             (host_print Failed_to_create_swapfile
                                (run_allocation Exit_nonzero h2))))))))"

subsection \<open>Sample inputs\<close>

text \<open>
  A host under steady, moderate load: 10\% CPU, 60\% RAM, 50 ms disk latency, 200 MB of
  network traffic; the tunable reads 60; the configuration file is present and sets no key.
\<close>

definition steady_snapshot :: snapshot where
  "steady_snapshot =
     \<lparr>timestamp = ''2025-01-01T00:00:00+00:00'', cpu_usage = 10, ram_usage = 60, swap_usage = 0,
      swap_total_gb = 1, swap_used_gb = 0, disk_latency = 50, disk_read_count = 1000,
      disk_write_count = 1000, network_bandwidth = 200\<rparr>"

definition empty_config :: config where
  "empty_config =
     \<lparr>DISK_LATENCY = None, CPU_USAGE = None, RAM_USAGE = None, NETWORK_BANDWIDTH = None,
      PID = None, NICENESS = None\<rparr>"

definition steady_host :: os_state where
  "steady_host =
     \<lparr>config_file = Some empty_config, live_pids = {}, setpriority_denied = {},
      setpriority_calls = [], swappiness_file = Some 60, swappiness_writable = True,
      set_swappiness_calls = [], sampled = Some steady_snapshot, clock = 100,
      log_writable = True, log_file = [], stdout = []\<rparr>"

text \<open>The loop after four iterations on that host, with the default weights.\<close>

definition warm_state :: daemon_state where
  "warm_state =
     \<lparr>metrics_list = [steady_snapshot, steady_snapshot, steady_snapshot, steady_snapshot],
      start_time = 80, previous_weights = DEFAULT_WEIGHTS,
      previous_settings = Some \<lparr>pid = None, niceness = 0\<rparr>\<rparr>"

text \<open>A configuration whose four weights are all 0.5, and so sum to 2.\<close>

definition heavy_config :: config where
  "heavy_config =
     \<lparr>DISK_LATENCY = Some 0.5, CPU_USAGE = Some 0.5, RAM_USAGE = Some 0.5,
      NETWORK_BANDWIDTH = Some 0.5, PID = None, NICENESS = None\<rparr>"

definition heavy_weights :: weights where
  "heavy_weights =
     \<lparr>w_disk_latency = 0.5, w_cpu_usage = 0.5, w_ram_usage = 0.5, w_network_bandwidth = 0.5\<rparr>"

text \<open>A configuration that names process 42 with niceness 5.\<close>

definition pid_config :: config where
  "pid_config =
     \<lparr>DISK_LATENCY = None, CPU_USAGE = None, RAM_USAGE = None, NETWORK_BANDWIDTH = None,
      PID = Some 42, NICENESS = Some 5\<rparr>"


text \<open>A process that leaves the host between two iterations.\<close>

definition process_exits :: "int \<Rightarrow> os_state \<Rightarrow> os_state" where
  "process_exits p os = os\<lparr>live_pids := live_pids os - {p}\<rparr>"

text \<open>A valid weighting other than the default one, and the loop running with it.\<close>

definition tuned_weights :: weights where
  "tuned_weights =
     \<lparr>w_disk_latency = 0.4, w_cpu_usage = 0.3, w_ram_usage = 0.2, w_network_bandwidth = 0.1\<rparr>"

definition tuned_state :: daemon_state where
  "tuned_state =
     \<lparr>metrics_list = [steady_snapshot, steady_snapshot, steady_snapshot, steady_snapshot],
      start_time = 80, previous_weights = tuned_weights,
      previous_settings = Some \<lparr>pid = Some 42, niceness = 5\<rparr>\<rparr>"

text \<open>A host whose swap file is already there and active.\<close>

definition provisioned_host :: host_state where
  "provisioned_host =
     \<lparr>swapfile_exists = True, swap_active = True, fallocate_outcome = Exit_ok,
      dd_outcome = Exit_ok, chmod_ok = True, mkswap_outcome = Exit_ok, swapon_outcome = Exit_ok,
      failure_leaves_file = False, printed = []\<rparr>"

section \<open>Properties\<close>

subsection \<open>The calculator\<close>



text \<open>
  The specification's end-to-end scenario, in exact arithmetic: averages of 20 ms, 80\%,
  50\% and 200 MB with the default weights give 85 times 0.2, which is 17.
\<close>

lemma end_to_end_scenario:
  "calculate_swappiness
     \<lparr>avg_cpu_usage = 80, avg_ram_usage = 50, avg_swap_usage = 0, avg_swap_total_gb = 0,
      avg_swap_used_gb = 0, avg_disk_latency = 20, avg_disk_read_count = 0,
      avg_disk_write_count = 0, avg_network_bandwidth = 200\<rparr> DEFAULT_WEIGHTS = 17"
  by code_simp





subsection \<open>The metrics window\<close>

lemma window_append_length:
  "0 \<le> N \<Longrightarrow> int (length w) \<le> N \<Longrightarrow> int (length (window_append N w m)) \<le> N"
  by (simp add: window_append_def Let_def)

lemma window_foldl_length:
  "0 \<le> N \<Longrightarrow> int (length w) \<le> N \<Longrightarrow> int (length (foldl (window_append N) w ms)) \<le> N"
  by (induction ms arbitrary: w) (simp_all add: window_append_length)

text \<open>
  C4: with a capacity \<open>N\<close> that is not negative, the window that starts empty holds at most
  \<open>N\<close> snapshots after any sequence of appends, and an append keeps the bound. Appending
  to a window that holds \<open>N\<close> snapshots removes the head of the appended list: for a
  positive \<open>N\<close> that is the oldest snapshot, the others stay in order and the new one is
  last. Below the capacity an append only adds the snapshot at the tail.
\<close>

theorem window_bounded_fifo:
  "0 \<le> N \<Longrightarrow>
     int (length (foldl (window_append N) [] ms)) \<le> N
   \<and> (int (length w) \<le> N \<longrightarrow> int (length (window_append N w m)) \<le> N)
   \<and> (int (length w) = N \<longrightarrow> window_append N w m = tl (w @ [m]))
   \<and> (int (length w) = N \<and> 0 < N \<longrightarrow> window_append N w m = tl w @ [m])
   \<and> (int (length w) < N \<longrightarrow> window_append N w m = w @ [m])"
  using window_foldl_length [of N "[]" ms] window_append_length [of N w m]
  by (cases w) (auto simp add: window_append_def Let_def)

theorem window_bounded_fifo_witness:
  "int (length (foldl (window_append 3) [] [1, 2, 3, 4 :: nat])) \<le> 3
   \<and> window_append 3 [1, 2, 3 :: nat] 4 = [2, 3, 4]
   \<and> window_append 3 [1, 2 :: nat] 3 = [1, 2, 3]"
  using window_bounded_fifo [of 3 "[1, 2, 3, 4 :: nat]" "[1, 2, 3 :: nat]" "4 :: nat"]
    window_bounded_fifo [of 3 "[1, 2, 3, 4 :: nat]" "[1, 2 :: nat]" "3 :: nat"]
  by (simp add: window_append_def)

subsection \<open>Provisioning the swap file\<close>

text \<open>
  C9: when the swap file already exists, \<^verbatim>\<open>create_swapfile\<close> returns \<^verbatim>\<open>True\<close> at once and
  only prints a message; a second call in succession does the same, and after both calls
  the host is as it was apart from what was printed: the file is neither changed nor
  removed.
\<close>

theorem create_swapfile_idempotent:
  "swapfile_exists h \<Longrightarrow>
     create_swapfile n h = (Inr True, host_print Swapfile_already_exists h)
   \<and> create_swapfile n (snd (create_swapfile n h))
       = (Inr True, host_print Swapfile_already_exists (host_print Swapfile_already_exists h))
   \<and> (snd (create_swapfile n (snd (create_swapfile n h))))\<lparr>printed := printed h\<rparr> = h"
  by (simp add: create_swapfile_def host_print_def)

theorem create_swapfile_idempotent_witness:
  "swapfile_exists provisioned_host
   \<and> fst (create_swapfile 1024 provisioned_host) = Inr True
   \<and> fst (create_swapfile 1024 (snd (create_swapfile 1024 provisioned_host))) = Inr True
   \<and> swapfile_exists (snd (create_swapfile 1024 (snd (create_swapfile 1024 provisioned_host))))
   \<and> swap_active (snd (create_swapfile 1024 (snd (create_swapfile 1024 provisioned_host))))"
proof -
  have h: "swapfile_exists provisioned_host" by (simp add: provisioned_host_def)
  have a: "swap_active provisioned_host" by (simp add: provisioned_host_def)
  have p: "\<And>msg g. swapfile_exists (host_print msg g) = swapfile_exists g"
    "\<And>msg g. swap_active (host_print msg g) = swap_active g"
    by (simp_all add: host_print_def)
  have t1: "create_swapfile 1024 provisioned_host =
      (Inr True, host_print Swapfile_already_exists provisioned_host)"
    using create_swapfile_idempotent [OF h, of 1024] by blast
  have t2: "create_swapfile 1024 (snd (create_swapfile 1024 provisioned_host)) =
      (Inr True, host_print Swapfile_already_exists
         (host_print Swapfile_already_exists provisioned_host))"
    using create_swapfile_idempotent [OF h, of 1024] by blast
  show ?thesis
    by (simp add: t2 [unfolded t1 snd_conv] t1 p h a)
qed

subsection \<open>What each step of an iteration leaves alone\<close>

text \<open>
  Reloading the configuration and applying the process settings print and call
  \<^verbatim>\<open>os.setpriority\<close>; they do not touch the tunable, the log, the sample or the clock.
\<close>

lemma load_config_frame:
  "swappiness_file (snd (load_config os)) = swappiness_file os"
  "swappiness_writable (snd (load_config os)) = swappiness_writable os"
  "set_swappiness_calls (snd (load_config os)) = set_swappiness_calls os"
  "sampled (snd (load_config os)) = sampled os"
  "clock (snd (load_config os)) = clock os"
  "log_writable (snd (load_config os)) = log_writable os"
  "log_file (snd (load_config os)) = log_file os"
  "live_pids (snd (load_config os)) = live_pids os"
  by (simp_all add: load_config_def print_def setpriority_def Let_def split: option.splits prod.splits)

lemma apply_settings_frame:
  "swappiness_file (snd (apply_settings cs os)) = swappiness_file os"
  "swappiness_writable (snd (apply_settings cs os)) = swappiness_writable os"
  "set_swappiness_calls (snd (apply_settings cs os)) = set_swappiness_calls os"
  "sampled (snd (apply_settings cs os)) = sampled os"
  "clock (snd (apply_settings cs os)) = clock os"
  "log_writable (snd (apply_settings cs os)) = log_writable os"
  "log_file (snd (apply_settings cs os)) = log_file os"
  "live_pids (snd (apply_settings cs os)) = live_pids os"
  by (simp_all add: apply_settings_def print_def setpriority_def Let_def split: option.splits prod.splits)

lemma reconcile_weights:
  "fst (fst (reconcile st os)) = fst (fst (load_config os))"
  "snd (fst (reconcile st os)) =
     (if fst (fst (load_config os)) \<noteq> previous_weights st
      then Some (previous_weights st, fst (fst (load_config os))) else None)"
  by (simp_all add: reconcile_def detect_weights_change_def reconcile_settings_def Let_def
        split: prod.splits)

lemma reconcile_state_frame:
  "metrics_list (fst (snd (reconcile st os))) = metrics_list st"
  "start_time (fst (snd (reconcile st os))) = start_time st"
  by (simp_all add: reconcile_def detect_weights_change_def reconcile_settings_def Let_def
        split: prod.splits)

lemma reconcile_os_frame:
  "swappiness_file (snd (snd (reconcile st os))) = swappiness_file os"
  "swappiness_writable (snd (snd (reconcile st os))) = swappiness_writable os"
  "set_swappiness_calls (snd (snd (reconcile st os))) = set_swappiness_calls os"
  "sampled (snd (snd (reconcile st os))) = sampled os"
  "clock (snd (snd (reconcile st os))) = clock os"
  "log_writable (snd (snd (reconcile st os))) = log_writable os"
  "log_file (snd (snd (reconcile st os))) = log_file os"
proof -
  obtain cw ls os1 where lc: "load_config os = ((cw, ls), os1)"
    by (metis prod.collapse)
  have os1: "os1 = snd (load_config os)" using lc by simp
  obtain wc st1 os2 where dw: "detect_weights_change cw st os1 = (wc, st1, os2)"
    by (metis prod.collapse)
  obtain cs st2 os3 where rs: "reconcile_settings ls st1 os2 = (cs, st2, os3)"
    by (metis prod.collapse)
  have r: "snd (snd (reconcile st os)) = os3"
    by (simp add: reconcile_def lc dw rs)
  have os2: "os2 = os1 \<or> os2 = print (Weights_changed (previous_weights st) cw) os1"
    using dw by (auto simp add: detect_weights_change_def split: if_splits)
  have os3: "os3 = os2 \<or> os3 = snd (apply_settings ls os2)"
    using rs by (auto simp add: reconcile_settings_def Let_def split: if_splits prod.splits)
  show "swappiness_file (snd (snd (reconcile st os))) = swappiness_file os"
    using os2 os3 by (auto simp add: r os1 apply_settings_frame load_config_frame print_def)
  show "swappiness_writable (snd (snd (reconcile st os))) = swappiness_writable os"
    using os2 os3 by (auto simp add: r os1 apply_settings_frame load_config_frame print_def)
  show "set_swappiness_calls (snd (snd (reconcile st os))) = set_swappiness_calls os"
    using os2 os3 by (auto simp add: r os1 apply_settings_frame load_config_frame print_def)
  show "sampled (snd (snd (reconcile st os))) = sampled os"
    using os2 os3 by (auto simp add: r os1 apply_settings_frame load_config_frame print_def)
  show "clock (snd (snd (reconcile st os))) = clock os"
    using os2 os3 by (auto simp add: r os1 apply_settings_frame load_config_frame print_def)
  show "log_writable (snd (snd (reconcile st os))) = log_writable os"
    using os2 os3 by (auto simp add: r os1 apply_settings_frame load_config_frame print_def)
  show "log_file (snd (snd (reconcile st os))) = log_file os"
    using os2 os3 by (auto simp add: r os1 apply_settings_frame load_config_frame print_def)
qed

lemma tick_unfold:
  "tick N I st os =
     sample_and_adjust N I (fst (fst (reconcile st os))) (snd (fst (reconcile st os)))
       (fst (snd (reconcile st os))) (snd (snd (reconcile st os)))"
  by (simp add: tick_def split: prod.splits)

lemma reconcile_previous_weights:
  "previous_weights (fst (snd (reconcile st os))) = fst (fst (load_config os))"
  by (simp add: reconcile_def detect_weights_change_def reconcile_settings_def Let_def
        case_prod_beta)

lemma reconcile_no_pid:
  assumes "pid (snd (fst (load_config os))) = None"
  shows "previous_settings (fst (snd (reconcile st os))) = Some (snd (fst (load_config os)))"
    and "snd (snd (reconcile st os)) =
      (if fst (fst (load_config os)) \<noteq> previous_weights st
       then print (Weights_changed (previous_weights st) (fst (fst (load_config os))))
              (snd (load_config os))
       else snd (load_config os))"
  using assms
  by (auto simp add: reconcile_def detect_weights_change_def reconcile_settings_def
        apply_settings_def Let_def case_prod_beta)

lemma load_config_failure:
  "config_file os = None \<Longrightarrow>
     load_config os =
       ((DEFAULT_WEIGHTS, \<lparr>pid = None, niceness = DEFAULT_NICENESS\<rparr>),
        print Error_loading_config os)"
  by (simp add: load_config_def)

lemma load_config_dead_pid:
  "config_file os = Some config \<Longrightarrow> PID config = Some p \<Longrightarrow> p \<noteq> 0 \<Longrightarrow> p \<notin> live_pids os \<Longrightarrow>
     snd (fst (load_config os)) = \<lparr>pid = None, niceness = DEFAULT_NICENESS\<rparr>
     \<and> snd (load_config os) = print (Pid_no_longer_running p) os"
  by (simp add: load_config_def pid_exists_def Let_def)

text \<open>The calculator step, case by case.\<close>

lemma adjust_few: "length ml < 5 \<Longrightarrow> adjust_swappiness ml w wc os = os"
  by (simp add: adjust_swappiness_def)

lemma adjust_unreadable:
  "swappiness_file os = None \<Longrightarrow>
     adjust_swappiness ml w wc os = (if length ml < 5 then os else print Error_reading_swappiness os)"
  by (simp add: adjust_swappiness_def get_swappiness_def)


lemma adjust_clock: "clock (adjust_swappiness ml w wc os) = clock os"
  by (simp add: adjust_swappiness_def get_swappiness_def set_swappiness_def write_to_log_def
        print_def Let_def split: option.splits)


lemma get_swappiness_twice:
  "fst (get_swappiness os) = swappiness_file os"
  "fst (get_swappiness (snd (get_swappiness os))) = swappiness_file os"
  "swappiness_file (snd (get_swappiness os)) = swappiness_file os"
  "set_swappiness_calls (snd (get_swappiness os)) = set_swappiness_calls os"
  "log_file (snd (get_swappiness os)) = log_file os"
  "log_writable (snd (get_swappiness os)) = log_writable os"
  by (simp_all add: get_swappiness_def print_def split: option.splits)

lemma write_to_log_frame:
  "swappiness_file (write_to_log m a b i wc os) = swappiness_file os"
  "set_swappiness_calls (write_to_log m a b i wc os) = set_swappiness_calls os"
  "log_file (write_to_log m a b i wc os) =
     (if log_writable os
      then log_file os @ [\<lparr>le_interval = i, le_metrics = m, le_old_swappiness = a,
                            le_new_swappiness = b, le_weights_changed = wc\<rparr>]
      else log_file os)"
  by (simp_all add: write_to_log_def print_def)


text \<open>
  Nothing after the reconciliation calls \<^verbatim>\<open>os.setpriority\<close>, reports an expired process
  or changes the previous weights and settings.
\<close>

lemma get_swappiness_quiet:
  "setpriority_calls (snd (get_swappiness os)) = setpriority_calls os"
  "count_list (stdout (snd (get_swappiness os))) (Pid_no_longer_running p) =
     count_list (stdout os) (Pid_no_longer_running p)"
  by (simp_all add: get_swappiness_def print_def split: option.splits)

lemma set_swappiness_quiet:
  "setpriority_calls (set_swappiness v os) = setpriority_calls os"
  "count_list (stdout (set_swappiness v os)) (Pid_no_longer_running p) =
     count_list (stdout os) (Pid_no_longer_running p)"
  by (simp_all add: set_swappiness_def print_def Let_def)

lemma write_to_log_quiet:
  "setpriority_calls (write_to_log m a b i wc os) = setpriority_calls os"
  "count_list (stdout (write_to_log m a b i wc os)) (Pid_no_longer_running p) =
     count_list (stdout os) (Pid_no_longer_running p)"
  by (simp_all add: write_to_log_def print_def Let_def)

lemma adjust_swappiness_quiet:
  "setpriority_calls (adjust_swappiness ml w wc os) = setpriority_calls os"
  "count_list (stdout (adjust_swappiness ml w wc os)) (Pid_no_longer_running p) =
     count_list (stdout os) (Pid_no_longer_running p)"
  by (simp_all add: adjust_swappiness_def Let_def case_prod_beta get_swappiness_quiet
        set_swappiness_quiet write_to_log_quiet split: option.splits)

lemma end_of_tick_quiet:
  "setpriority_calls (outcome_os (sleep I st os)) = setpriority_calls os"
  "count_list (stdout (outcome_os (sleep I st os))) (Pid_no_longer_running p) =
     count_list (stdout os) (Pid_no_longer_running p)"
  "setpriority_calls (outcome_os (except_handler I st os)) = setpriority_calls os"
  "count_list (stdout (outcome_os (except_handler I st os))) (Pid_no_longer_running p) =
     count_list (stdout os) (Pid_no_longer_running p)"
  "previous_weights (outcome_state (sleep I st os)) = previous_weights st"
  "previous_settings (outcome_state (sleep I st os)) = previous_settings st"
  "previous_weights (outcome_state (except_handler I st os)) = previous_weights st"
  "previous_settings (outcome_state (except_handler I st os)) = previous_settings st"
  by (simp_all add: sleep_def except_handler_def print_def Let_def)

lemma sample_and_adjust_quiet:
  "setpriority_calls (outcome_os (sample_and_adjust N I cw wc st os)) = setpriority_calls os"
  "count_list (stdout (outcome_os (sample_and_adjust N I cw wc st os))) (Pid_no_longer_running p) =
     count_list (stdout os) (Pid_no_longer_running p)"
  by (simp_all add: sample_and_adjust_def collect_metrics_def Let_def case_prod_beta
        end_of_tick_quiet get_swappiness_quiet write_to_log_quiet adjust_swappiness_quiet print_def
        split: option.splits)

lemma sample_and_adjust_previous:
  "previous_weights (outcome_state (sample_and_adjust N I cw wc st os)) = previous_weights st"
  "previous_settings (outcome_state (sample_and_adjust N I cw wc st os)) = previous_settings st"
  by (simp_all add: sample_and_adjust_def collect_metrics_def Let_def case_prod_beta
        end_of_tick_quiet split: option.splits)

text \<open>The second half of an iteration when a sample was taken and the interval is positive.\<close>

lemma sample_and_adjust_sampled:
  assumes "sampled os = Some m" and "0 < I"
  shows "sample_and_adjust N I cw wc st os =
     Next (st\<lparr>metrics_list := window_append N (metrics_list st) m\<rparr>)
       (write_to_log m
          (swappiness_file (adjust_swappiness (window_append N (metrics_list st) m) cw wc os))
          (swappiness_file (adjust_swappiness (window_append N (metrics_list st) m) cw wc os))
          (py_int ((clock os - start_time st) / of_int I)) wc
          (snd (get_swappiness (snd (get_swappiness
             (adjust_swappiness (window_append N (metrics_list st) m) cw wc os))))))"
  using assms
  by (simp add: sample_and_adjust_def collect_metrics_def sleep_def Let_def adjust_clock
        get_swappiness_twice case_prod_beta)

lemma sample_and_adjust_continues: "0 \<le> I \<Longrightarrow> continues (sample_and_adjust N I cw wc st os)"
  by (simp add: sample_and_adjust_def collect_metrics_def sleep_def except_handler_def Let_def
        split: prod.splits option.splits)

lemma sample_and_adjust_window:
  "metrics_list (outcome_state (sample_and_adjust N I cw wc st os)) =
     (case sampled os of None \<Rightarrow> metrics_list st | Some m \<Rightarrow> window_append N (metrics_list st) m)"
  by (simp add: sample_and_adjust_def collect_metrics_def sleep_def except_handler_def Let_def
        split: prod.splits option.splits)

lemma tick_sampled:
  assumes "sampled os = Some m" and "0 < I"
  shows "tick N I st os =
     Next ((fst (snd (reconcile st os)))\<lparr>metrics_list := window_append N (metrics_list st) m\<rparr>)
       (write_to_log m
          (swappiness_file (adjust_swappiness (window_append N (metrics_list st) m)
             (fst (fst (load_config os))) (snd (fst (reconcile st os))) (snd (snd (reconcile st os)))))
          (swappiness_file (adjust_swappiness (window_append N (metrics_list st) m)
             (fst (fst (load_config os))) (snd (fst (reconcile st os))) (snd (snd (reconcile st os)))))
          (py_int ((clock os - start_time st) / of_int I)) (snd (fst (reconcile st os)))
          (snd (get_swappiness (snd (get_swappiness
             (adjust_swappiness (window_append N (metrics_list st) m)
             (fst (fst (load_config os))) (snd (fst (reconcile st os))) (snd (snd (reconcile st os)))))))))"
  using assms
  by (simp add: tick_unfold sample_and_adjust_sampled reconcile_os_frame reconcile_state_frame
        reconcile_weights(1))

lemma sample_and_adjust_unreadable_calls:
  "swappiness_file os = None \<Longrightarrow>
     set_swappiness_calls (outcome_os (sample_and_adjust N I cw wc st os)) = set_swappiness_calls os"
  by (simp add: sample_and_adjust_def collect_metrics_def sleep_def except_handler_def Let_def
        adjust_unreadable get_swappiness_def write_to_log_def print_def
        split: option.splits)



subsection \<open>The calculator step within an iteration\<close>

text \<open>
  C10: when the read of the tunable yields no value, \<^verbatim>\<open>adjust_swappiness\<close> returns before
  a candidate is computed or applied. It does not call \<^verbatim>\<open>set_swappiness\<close>, and it leaves
  the tunable and the log as they are (the failed read only prints an error); no write
  of the tunable happens anywhere in the iteration. The window after the iteration is the
  window the calculator was given: the previous one with the new sample appended, or the
  previous one when no sample was taken. The record that the loop itself appends once the
  calculator has returned belongs to C2 and C5.
\<close>

theorem unreadable_tunable_aborts:
  assumes "swappiness_file os = None"
  shows "adjust_swappiness ml w wc os = (if length ml < 5 then os else print Error_reading_swappiness os)
    \<and> set_swappiness_calls (adjust_swappiness ml w wc os) = set_swappiness_calls os
    \<and> swappiness_file (adjust_swappiness ml w wc os) = None
    \<and> log_file (adjust_swappiness ml w wc os) = log_file os
    \<and> set_swappiness_calls (outcome_os (tick N I st os)) = set_swappiness_calls os
    \<and> metrics_list (outcome_state (tick N I st os)) =
        (case sampled os of None \<Rightarrow> metrics_list st | Some m \<Rightarrow> window_append N (metrics_list st) m)"
proof -
  have "swappiness_file (snd (snd (reconcile st os))) = None"
    using assms by (simp add: reconcile_os_frame)
  then have "set_swappiness_calls (outcome_os (tick N I st os)) = set_swappiness_calls os"
    by (simp add: tick_unfold sample_and_adjust_unreadable_calls reconcile_os_frame)
  moreover have "metrics_list (outcome_state (tick N I st os)) =
        (case sampled os of None \<Rightarrow> metrics_list st | Some m \<Rightarrow> window_append N (metrics_list st) m)"
    by (simp add: tick_unfold sample_and_adjust_window reconcile_os_frame reconcile_state_frame
          split: option.splits)
  ultimately show ?thesis
    using assms by (simp add: adjust_unreadable print_def)
qed

theorem unreadable_tunable_aborts_witness:
  "swappiness_file (steady_host\<lparr>swappiness_file := None\<rparr>) = None
   \<and> adjust_swappiness
        (window_append 200 (metrics_list warm_state) steady_snapshot) DEFAULT_WEIGHTS None
        (steady_host\<lparr>swappiness_file := None\<rparr>)
       = steady_host\<lparr>swappiness_file := None, stdout := [Error_reading_swappiness]\<rparr>
   \<and> set_swappiness_calls (outcome_os (tick 200 5 warm_state (steady_host\<lparr>swappiness_file := None\<rparr>))) = []
   \<and> length (metrics_list (outcome_state (tick 200 5 warm_state (steady_host\<lparr>swappiness_file := None\<rparr>)))) = 5"
proof -
  have h: "swappiness_file (steady_host\<lparr>swappiness_file := None\<rparr>) = None" by simp
  show ?thesis
    using unreadable_tunable_aborts [OF h,
        of "window_append 200 (metrics_list warm_state) steady_snapshot" DEFAULT_WEIGHTS None
           200 5 warm_state]
    by (simp add: steady_host_def warm_state_def window_append_def print_def)
qed

text \<open>
  C5, as the code has it. With a sample taken, a positive interval and fewer than five
  snapshots in the window, the calculator changes nothing and the iteration neither
  calls \<^verbatim>\<open>set_swappiness\<close> nor changes the tunable. The loop itself still appends its
  record for the iteration to the log, with the current value as both the old and the
  new one.
\<close>

theorem few_snapshots_skip:
  assumes "sampled os = Some m" and "0 < I"
    and "W = window_append N (metrics_list st) m" and "length W < 5"
    and "cw = fst (fst (load_config os))"
    and "wc = (if cw \<noteq> previous_weights st then Some (previous_weights st, cw) else None)"
    and "os' = outcome_os (tick N I st os)"
  shows "adjust_swappiness W cw wc os0 = os0
    \<and> continues (tick N I st os)
    \<and> metrics_list (outcome_state (tick N I st os)) = W
    \<and> set_swappiness_calls os' = set_swappiness_calls os
    \<and> swappiness_file os' = swappiness_file os
    \<and> log_file os' =
        (if log_writable os then
           log_file os
           @ [\<lparr>le_interval = py_int ((clock os - start_time st) / of_int I), le_metrics = m,
                le_old_swappiness = swappiness_file os, le_new_swappiness = swappiness_file os,
                le_weights_changed = wc\<rparr>]
         else log_file os)"
proof -
  have wc: "snd (fst (reconcile st os)) = wc"
    using assms(5,6) by (simp add: reconcile_weights)
  have t: "tick N I st os =
     Next ((fst (snd (reconcile st os)))\<lparr>metrics_list := W\<rparr>)
       (write_to_log m (swappiness_file os) (swappiness_file os)
          (py_int ((clock os - start_time st) / of_int I)) wc
          (snd (get_swappiness (snd (get_swappiness (snd (snd (reconcile st os))))))))"
    using tick_sampled [OF assms(1,2), of N st] assms(3,4,5) wc
    by (simp add: adjust_few reconcile_os_frame)
  show ?thesis
    unfolding assms(7) t using assms(4)
    by (simp add: adjust_few write_to_log_frame get_swappiness_twice reconcile_os_frame)
qed

theorem few_snapshots_skip_witness:
  "sampled steady_host = Some steady_snapshot
   \<and> length (window_append 200 (metrics_list (initial_state DEFAULT_WEIGHTS steady_host)) steady_snapshot) < 5
   \<and> continues (tick 200 5 (initial_state DEFAULT_WEIGHTS steady_host) steady_host)
   \<and> set_swappiness_calls (outcome_os (tick 200 5 (initial_state DEFAULT_WEIGHTS steady_host) steady_host)) = []
   \<and> swappiness_file (outcome_os (tick 200 5 (initial_state DEFAULT_WEIGHTS steady_host) steady_host)) = Some 60"
proof -
  have h1: "sampled steady_host = Some steady_snapshot" by (simp add: steady_host_def)
  have h2: "(0::int) < 5" by simp
  have h4: "length (window_append 200 (metrics_list (initial_state DEFAULT_WEIGHTS steady_host)) steady_snapshot) < 5"
    by (simp add: window_append_def initial_state_def)
  have h6: "set_swappiness_calls steady_host = []" "swappiness_file steady_host = Some 60"
    by (simp_all add: steady_host_def)
  show ?thesis
    using few_snapshots_skip [OF h1 h2 refl h4 refl refl refl] h1 h4 h6
    by simp
qed

text \<open>
  C5, as the specification states it, fails: the first iteration on a host under steady
  load holds one snapshot, writes no tunable, and leaves one record in a log that was
  empty.
\<close>

theorem few_snapshots_log_counterexample:
  "length (metrics_list (outcome_state
       (tick 200 5 (initial_state DEFAULT_WEIGHTS steady_host) steady_host))) = 1
   \<and> set_swappiness_calls (outcome_os
       (tick 200 5 (initial_state DEFAULT_WEIGHTS steady_host) steady_host)) = []
   \<and> log_file steady_host = []
   \<and> log_file (outcome_os (tick 200 5 (initial_state DEFAULT_WEIGHTS steady_host) steady_host)) =
       [\<lparr>le_interval = 0, le_metrics = steady_snapshot, le_old_swappiness = Some 60,
         le_new_swappiness = Some 60, le_weights_changed = None\<rparr>]"
  by code_simp




subsection \<open>Reloading the configuration\<close>

text \<open>
  C6, as the code has it. When the configuration file cannot be read or parsed,
  \<^verbatim>\<open>load_config\<close> returns the default weights and no process, with the default niceness.
  With an interval that is not negative the iteration completes and the loop goes on; the
  iteration calculates with the default weights, and these and the empty process target
  are what the loop remembers afterwards. The values of the last successful load are not
  kept.
\<close>

theorem config_failure_falls_back:
  assumes "config_file os = None" and "0 \<le> I"
  shows "load_config os =
       ((DEFAULT_WEIGHTS, \<lparr>pid = None, niceness = DEFAULT_NICENESS\<rparr>),
        print Error_loading_config os)
    \<and> continues (tick N I st os)
    \<and> previous_weights (outcome_state (tick N I st os)) = DEFAULT_WEIGHTS
    \<and> previous_settings (outcome_state (tick N I st os))
        = Some \<lparr>pid = None, niceness = DEFAULT_NICENESS\<rparr>
    \<and> tick N I st os =
        sample_and_adjust N I DEFAULT_WEIGHTS
          (if DEFAULT_WEIGHTS \<noteq> previous_weights st
           then Some (previous_weights st, DEFAULT_WEIGHTS) else None)
          (fst (snd (reconcile st os))) (snd (snd (reconcile st os)))"
proof -
  note lc = load_config_failure [OF assms(1)]
  have p: "pid (snd (fst (load_config os))) = None" by (simp add: lc)
  show ?thesis
    using assms(2)
    by (simp add: lc tick_unfold sample_and_adjust_continues sample_and_adjust_previous
          reconcile_previous_weights reconcile_no_pid(1) [OF p] reconcile_weights)
qed

theorem config_failure_falls_back_witness:
  "config_file (steady_host\<lparr>config_file := None, live_pids := {42}\<rparr>) = None
   \<and> continues (tick 200 5 tuned_state (steady_host\<lparr>config_file := None, live_pids := {42}\<rparr>))
   \<and> previous_weights (outcome_state
        (tick 200 5 tuned_state (steady_host\<lparr>config_file := None, live_pids := {42}\<rparr>)))
       = DEFAULT_WEIGHTS
   \<and> previous_settings (outcome_state
        (tick 200 5 tuned_state (steady_host\<lparr>config_file := None, live_pids := {42}\<rparr>)))
       = Some \<lparr>pid = None, niceness = 0\<rparr>"
proof -
  have h: "config_file (steady_host\<lparr>config_file := None, live_pids := {42}\<rparr>) = None" by simp
  have i: "(0::int) \<le> 5" by simp
  note t = config_failure_falls_back [OF h i, of 200 tuned_state]
  have a1: "continues (tick 200 5 tuned_state (steady_host\<lparr>config_file := None, live_pids := {42}\<rparr>))"
    using t by blast
  have a2: "previous_weights (outcome_state
        (tick 200 5 tuned_state (steady_host\<lparr>config_file := None, live_pids := {42}\<rparr>)))
       = DEFAULT_WEIGHTS"
    using t by blast
  have a3: "previous_settings (outcome_state
        (tick 200 5 tuned_state (steady_host\<lparr>config_file := None, live_pids := {42}\<rparr>)))
       = Some \<lparr>pid = None, niceness = DEFAULT_NICENESS\<rparr>"
    using t by blast
  show ?thesis
    using a1 a2 a3 by (simp add: DEFAULT_NICENESS_def)
qed

text \<open>
  C6, as the specification states it, fails: a loop that runs with the valid weights
  0.4, 0.3, 0.2, 0.1 and tracks process 42 meets an unreadable configuration file. The
  iteration calculates with the default weights and forgets the process, although the
  process is still alive. With the previous weights the candidate would be 66 and would
  be written over the current 60; with the default weights it is 63 and nothing is
  written.
\<close>

theorem config_failure_counterexample:
  "validate_weights tuned_weights = Inr tuned_weights
   \<and> previous_weights tuned_state = tuned_weights
   \<and> previous_settings tuned_state = Some \<lparr>pid = Some 42, niceness = 5\<rparr>
   \<and> config_file (steady_host\<lparr>config_file := None, live_pids := {42}\<rparr>) = None
   \<and> fst (fst (reconcile tuned_state (steady_host\<lparr>config_file := None, live_pids := {42}\<rparr>)))
       = DEFAULT_WEIGHTS
   \<and> DEFAULT_WEIGHTS \<noteq> tuned_weights
   \<and> previous_settings (outcome_state
        (tick 200 5 tuned_state (steady_host\<lparr>config_file := None, live_pids := {42}\<rparr>)))
       = Some \<lparr>pid = None, niceness = 0\<rparr>
   \<and> calculate_swappiness
        (moving_averages (window_append 200 (metrics_list tuned_state) steady_snapshot))
        tuned_weights = 66
   \<and> set_swappiness_calls (outcome_os
        (tick 200 5 tuned_state (steady_host\<lparr>config_file := None, live_pids := {42}\<rparr>))) = []"
  by code_simp

text \<open>
  C1: the reconciler should reject a reloaded weighting whose coefficients do not sum to
  1 within 0.001 and keep the previous one. The code does not: \<^verbatim>\<open>validate_weights\<close> is
  applied to the weights loaded at startup only. Here the file sets all four weights to
  0.5. \<^verbatim>\<open>validate_weights\<close> rejects that weighting, yet the iteration adopts it in place of
  the valid default weighting, computes the candidate 126 with it instead of 63, and
  writes 126 to the tunable.
\<close>

theorem unvalidated_reload:
  "validate_weights heavy_weights = Inl ArgumentTypeError
   \<and> fst (fst (load_config (steady_host\<lparr>config_file := Some heavy_config\<rparr>))) = heavy_weights
   \<and> previous_weights warm_state = DEFAULT_WEIGHTS
   \<and> validate_weights DEFAULT_WEIGHTS = Inr DEFAULT_WEIGHTS
   \<and> calculate_swappiness
        (moving_averages (window_append 200 (metrics_list warm_state) steady_snapshot))
        DEFAULT_WEIGHTS = 63
   \<and> calculate_swappiness
        (moving_averages (window_append 200 (metrics_list warm_state) steady_snapshot))
        heavy_weights = 126
   \<and> previous_weights (outcome_state
        (tick 200 5 warm_state (steady_host\<lparr>config_file := Some heavy_config\<rparr>))) = heavy_weights
   \<and> set_swappiness_calls (outcome_os
        (tick 200 5 warm_state (steady_host\<lparr>config_file := Some heavy_config\<rparr>))) = [126]
   \<and> swappiness_file (outcome_os
        (tick 200 5 warm_state (steady_host\<lparr>config_file := Some heavy_config\<rparr>))) = Some 126"
  by code_simp

text \<open>
  C7, as the code has it. On every iteration in which the configuration names a process
  that does not exist, \<^verbatim>\<open>load_config\<close> resets the process target to none with the default
  niceness, the loop remembers that target, \<^verbatim>\<open>os.setpriority\<close> is not called, and the
  expiry is printed once more: once in each such iteration.
\<close>

theorem expired_pid_reported_every_tick:
  assumes "config_file os = Some config" and "PID config = Some p" and "p \<noteq> 0"
    and "p \<notin> live_pids os"
  shows "snd (fst (load_config os)) = \<lparr>pid = None, niceness = DEFAULT_NICENESS\<rparr>
    \<and> previous_settings (outcome_state (tick N I st os))
        = Some \<lparr>pid = None, niceness = DEFAULT_NICENESS\<rparr>
    \<and> setpriority_calls (outcome_os (tick N I st os)) = setpriority_calls os
    \<and> count_list (stdout (outcome_os (tick N I st os))) (Pid_no_longer_running p)
        = count_list (stdout os) (Pid_no_longer_running p) + 1"
proof -
  note lc = load_config_dead_pid [OF assms]
  have p: "pid (snd (fst (load_config os))) = None" by (simp add: lc)
  show ?thesis
    by (simp add: lc tick_unfold sample_and_adjust_quiet sample_and_adjust_previous
          reconcile_no_pid [OF p] print_def)
qed

theorem expired_pid_reported_every_tick_witness:
  "config_file (steady_host\<lparr>config_file := Some pid_config\<rparr>) = Some pid_config
   \<and> PID pid_config = Some 42
   \<and> previous_settings (outcome_state (tick 200 5 tuned_state
        (steady_host\<lparr>config_file := Some pid_config\<rparr>))) = Some \<lparr>pid = None, niceness = 0\<rparr>
   \<and> setpriority_calls (outcome_os (tick 200 5 tuned_state
        (steady_host\<lparr>config_file := Some pid_config\<rparr>))) = []
   \<and> count_list (stdout (outcome_os (tick 200 5 tuned_state
        (steady_host\<lparr>config_file := Some pid_config\<rparr>)))) (Pid_no_longer_running 42) = 1"
proof -
  have h1: "config_file (steady_host\<lparr>config_file := Some pid_config\<rparr>) = Some pid_config"
    by simp
  have h2: "PID pid_config = Some 42" by (simp add: pid_config_def)
  have h3: "(42::int) \<noteq> 0" by simp
  have h4: "42 \<notin> live_pids (steady_host\<lparr>config_file := Some pid_config\<rparr>)"
    by (simp add: steady_host_def)
  have e: "setpriority_calls (steady_host\<lparr>config_file := Some pid_config\<rparr>) = []"
    "stdout (steady_host\<lparr>config_file := Some pid_config\<rparr>) = []"
    by (simp_all add: steady_host_def)
  show ?thesis
    using expired_pid_reported_every_tick [OF h1 h2 h3 h4, of 200 5 tuned_state] h2 e
    by (simp add: DEFAULT_NICENESS_def)
qed

text \<open>
  C7, as the specification states it, fails: process 42 is alive in the first iteration,
  where its niceness is set, and exits before the second. With the configuration
  unchanged the expiry has been printed once after the second iteration, twice after the
  third and three times after the fourth.
\<close>

theorem expiry_reported_again_counterexample:
  "setpriority_calls (outcome_os
      (run_daemon 200 5 [id] (initial_state DEFAULT_WEIGHTS steady_host)
         (steady_host\<lparr>config_file := Some pid_config, live_pids := {42}\<rparr>))) = [(42, 5), (42, 5)]
   \<and> count_list (stdout (outcome_os
      (run_daemon 200 5 [id, process_exits 42] (initial_state DEFAULT_WEIGHTS steady_host)
         (steady_host\<lparr>config_file := Some pid_config, live_pids := {42}\<rparr>))))
        (Pid_no_longer_running 42) = 1
   \<and> count_list (stdout (outcome_os
      (run_daemon 200 5 [id, process_exits 42, id] (initial_state DEFAULT_WEIGHTS steady_host)
         (steady_host\<lparr>config_file := Some pid_config, live_pids := {42}\<rparr>))))
        (Pid_no_longer_running 42) = 2
   \<and> count_list (stdout (outcome_os
      (run_daemon 200 5 [id, process_exits 42, id, id] (initial_state DEFAULT_WEIGHTS steady_host)
         (steady_host\<lparr>config_file := Some pid_config, live_pids := {42}\<rparr>))))
        (Pid_no_longer_running 42) = 3"
  by code_simp

end
